theory Spec2Isabelle
  imports Complex_Main "HOL-Library.Sublist" "HOL-Library.Multiset"
begin

section \<open>Python values and library functions\<close>

text \<open>
  The backend is Python. Mission logs arrive as decoded JSON (\<^verbatim>\<open>Dict[str, Any]\<close>), so
  the values the parser inspects are Python objects of unknown class; \<open>pyval\<close> lists the
  classes the code can meet: the JSON classes and \<^verbatim>\<open>datetime\<close>, which
  \<^verbatim>\<open>parse_timestamp\<close> tests for. A \<^verbatim>\<open>dict\<close> is an association list read through
  \<open>map_of\<close>. A float is modelled by the real number it denotes (not-a-number and the
  infinities are left out), a string by the list of its characters.
\<close>

datatype datetime = Datetime nat nat nat nat nat nat nat

datatype pyval =
    PNone
  | PBool bool
  | PInt int
  | PFloat real
  | PStr string
  | PList "pyval list"
  | PDict "(string \<times> pyval) list"
  | PDatetime datetime

text \<open>
  The exception classes the modelled code raises (messages are dropped), and
  \<open>NotIndexedError\<close>, which the specification names: the repository defines no class of
  that name and raises it nowhere.
\<close>

datatype error =
    ValueError
  | KeyError
  | TypeError
  | ValidationError
  | ZeroDivisionError
  | OverflowError
  | OSError
  | NotIndexedError

text \<open>
  Functions of the Python standard library and of pydantic that the code calls and that
  are not part of the repository are parameters of the model:
  \<^item> \<open>strptime s fmt\<close> is \<^verbatim>\<open>datetime.strptime(s, fmt)\<close>, \<open>None\<close> where it raises
    \<^verbatim>\<open>ValueError\<close>;
  \<^item> \<open>fromtimestamp v\<close> is \<^verbatim>\<open>datetime.fromtimestamp(v)\<close> on a number, with the exception
    it raises on a value out of range;
  \<^item> \<open>coerce_str\<close>, \<open>coerce_float\<close>, \<open>coerce_dict\<close>, \<open>coerce_datetime\<close> are pydantic's
    conversions of a value that is neither of the annotated class nor \<^verbatim>\<open>None\<close>
    (\<open>None\<close> where validation fails);
  \<^item> \<open>format_1f\<close> is the format specification \<^verbatim>\<open>:.1f\<close>, \<open>str_datetime\<close> is \<^verbatim>\<open>str\<close> on a
    \<^verbatim>\<open>datetime\<close>, and \<open>now\<close> is what \<^verbatim>\<open>datetime.now()\<close> returns.
\<close>

record library =
  strptime :: "string \<Rightarrow> string \<Rightarrow> datetime option"
  fromtimestamp :: "pyval \<Rightarrow> error + datetime"
  coerce_str :: "pyval \<Rightarrow> string option"
  coerce_float :: "pyval \<Rightarrow> real option"
  coerce_dict :: "pyval \<Rightarrow> (string \<times> pyval) list option"
  coerce_datetime :: "pyval \<Rightarrow> datetime option"
  format_1f :: "real \<Rightarrow> string"
  str_datetime :: "datetime \<Rightarrow> string"
  now :: datetime

text \<open>
  Validation of one field by pydantic. What is certain of every pydantic version is
  written out: a value of the annotated class is accepted unchanged, \<^verbatim>\<open>None\<close> is
  rejected by a field that is not \<^verbatim>\<open>Optional\<close>, and \<^verbatim>\<open>Optional[T]\<close> accepts \<^verbatim>\<open>None\<close>
  and otherwise validates as \<^verbatim>\<open>T\<close>. Everything else is the library's.
\<close>

definition validate_str :: "library \<Rightarrow> pyval \<Rightarrow> string option" where
  "validate_str L v = (case v of PStr s \<Rightarrow> Some s | PNone \<Rightarrow> None | _ \<Rightarrow> coerce_str L v)"

definition validate_float :: "library \<Rightarrow> pyval \<Rightarrow> real option" where
  "validate_float L v = (case v of PFloat x \<Rightarrow> Some x | PNone \<Rightarrow> None | _ \<Rightarrow> coerce_float L v)"

definition validate_dict :: "library \<Rightarrow> pyval \<Rightarrow> (string \<times> pyval) list option" where
  "validate_dict L v = (case v of PDict d \<Rightarrow> Some d | PNone \<Rightarrow> None | _ \<Rightarrow> coerce_dict L v)"

definition validate_datetime :: "library \<Rightarrow> pyval \<Rightarrow> datetime option" where
  "validate_datetime L v =
     (case v of PDatetime d \<Rightarrow> Some d | PNone \<Rightarrow> None | _ \<Rightarrow> coerce_datetime L v)"

definition validate_optional :: "(pyval \<Rightarrow> 'a option) \<Rightarrow> pyval \<Rightarrow> 'a option option" where
  "validate_optional f v = (case v of PNone \<Rightarrow> Some None | _ \<Rightarrow> map_option Some (f v))"

text \<open>\<^verbatim>\<open>d.get(k, default)\<close> on a dictionary.\<close>

definition dict_get :: "(string \<times> pyval) list \<Rightarrow> string \<Rightarrow> pyval \<Rightarrow> pyval" where
  "dict_get d k dflt = (case map_of d k of None \<Rightarrow> dflt | Some v \<Rightarrow> v)"

section \<open>Data model (models.py)\<close>

text \<open>
  \<^verbatim>\<open>MissionEvent.timestamp\<close> is declared \<^verbatim>\<open>datetime\<close>, and the constructor rejects
  \<^verbatim>\<open>None\<close>; the record keeps the attribute as an option because
  \<^verbatim>\<open>_determine_compliance\<close> tests it against \<^verbatim>\<open>None\<close>. \<open>MissionEvent_init\<close> is the
  validating constructor \<^verbatim>\<open>MissionEvent(...)\<close>: pydantic validates every field and raises
  one \<^verbatim>\<open>ValidationError\<close> when any of them fails.
\<close>

record MissionEvent =
  timestamp :: "datetime option"
  event_type :: string
  description :: string
  tracking_number :: "string option"
  speed :: "real option"
  course :: "real option"
  latitude :: "real option"
  longitude :: "real option"
  metadata :: "(string \<times> pyval) list"

definition MissionEvent_init ::
  "library \<Rightarrow> pyval \<Rightarrow> pyval \<Rightarrow> pyval \<Rightarrow> pyval \<Rightarrow> pyval \<Rightarrow> pyval \<Rightarrow> pyval \<Rightarrow> pyval \<Rightarrow> pyval
     \<Rightarrow> error + MissionEvent" where
  "MissionEvent_init L ts et de tn sp co la lo md =
     (if validate_datetime L ts = None \<or> validate_str L et = None \<or> validate_str L de = None
         \<or> validate_optional (validate_str L) tn = None
         \<or> validate_optional (validate_float L) sp = None
         \<or> validate_optional (validate_float L) co = None
         \<or> validate_optional (validate_float L) la = None
         \<or> validate_optional (validate_float L) lo = None
         \<or> validate_dict L md = None
      then Inl ValidationError
      else Inr \<lparr>timestamp = Some (the (validate_datetime L ts)),
                event_type = the (validate_str L et),
                description = the (validate_str L de),
                tracking_number = the (validate_optional (validate_str L) tn),
                speed = the (validate_optional (validate_float L) sp),
                course = the (validate_optional (validate_float L) co),
                latitude = the (validate_optional (validate_float L) la),
                longitude = the (validate_optional (validate_float L) lo),
                metadata = the (validate_dict L md)\<rparr>)"

record MissionLog =
  mission_id :: string
  mission_name :: string
  start_time :: datetime
  end_time :: "datetime option"
  vessel_name :: string
  events :: "MissionEvent list"
  raw_data :: "(string \<times> pyval) list option"

text \<open>
  \<^verbatim>\<open>MissionLog(...)\<close>. The events passed are \<^verbatim>\<open>MissionEvent\<close> objects already, which
  validation keeps as they are.
\<close>

definition MissionLog_init ::
  "library \<Rightarrow> pyval \<Rightarrow> pyval \<Rightarrow> pyval \<Rightarrow> pyval \<Rightarrow> pyval \<Rightarrow> MissionEvent list \<Rightarrow> pyval
     \<Rightarrow> error + MissionLog" where
  "MissionLog_init L mid mname st et vname evs raw =
     (if validate_str L mid = None \<or> validate_str L mname = None
         \<or> validate_datetime L st = None
         \<or> validate_optional (validate_datetime L) et = None
         \<or> validate_str L vname = None
         \<or> validate_optional (validate_dict L) raw = None
      then Inl ValidationError
      else Inr \<lparr>mission_id = the (validate_str L mid),
                mission_name = the (validate_str L mname),
                start_time = the (validate_datetime L st),
                end_time = the (validate_optional (validate_datetime L) et),
                vessel_name = the (validate_str L vname),
                events = evs,
                raw_data = the (validate_optional (validate_dict L) raw)\<rparr>)"

section \<open>Mission log parser (mission_parser.py)\<close>

text \<open>\<^verbatim>\<open>parse_timestamp\<close>, lines 16-39: the formats in the order the loop tries them.\<close>

definition formats :: "string list" where
  "formats =
     [''%Y-%m-%dT%H:%M:%S.%fZ'',
      ''%Y-%m-%dT%H:%M:%SZ'',
      ''%Y-%m-%d %H:%M:%S'',
      ''%Y-%m-%d %H:%M:%S.%f'',
      ''%m/%d/%Y %H:%M:%S'']"

fun try_formats :: "library \<Rightarrow> string \<Rightarrow> string list \<Rightarrow> datetime option" where
  "try_formats L ts [] = None"
| "try_formats L ts (fmt # fmts) =
     (case strptime L ts fmt of Some d \<Rightarrow> Some d | None \<Rightarrow> try_formats L ts fmts)"

text \<open>
  The \<^verbatim>\<open>isinstance\<close> tests in their order. \<^verbatim>\<open>bool\<close> is a subclass of \<^verbatim>\<open>int\<close>, so a
  boolean passes \<^verbatim>\<open>isinstance(ts, (int, float))\<close>.
\<close>

definition parse_timestamp :: "library \<Rightarrow> pyval \<Rightarrow> error + datetime" where
  "parse_timestamp L ts =
     (case ts of
        PDatetime d \<Rightarrow> Inr d
      | PStr s \<Rightarrow> (case try_formats L s formats of Some d \<Rightarrow> Inr d | None \<Rightarrow> Inl ValueError)
      | PInt n \<Rightarrow> fromtimestamp L ts
      | PFloat x \<Rightarrow> fromtimestamp L ts
      | PBool b \<Rightarrow> fromtimestamp L ts
      | _ \<Rightarrow> Inl ValueError)"

text \<open>
  \<^verbatim>\<open>parse_event\<close>, lines 41-54. \<^verbatim>\<open>event_data["timestamp"]\<close> raises \<^verbatim>\<open>KeyError\<close> on a
  dictionary without the key and \<^verbatim>\<open>TypeError\<close> on a value that is not a dictionary.
\<close>

definition parse_event :: "library \<Rightarrow> pyval \<Rightarrow> error + MissionEvent" where
  "parse_event L event_data =
     (case event_data of
        PDict d \<Rightarrow>
          (case map_of d ''timestamp'' of
             None \<Rightarrow> Inl KeyError
           | Some ts \<Rightarrow>
               (case parse_timestamp L ts of
                  Inl e \<Rightarrow> Inl e
                | Inr t \<Rightarrow>
                    MissionEvent_init L (PDatetime t)
                      (dict_get d ''event_type'' (PStr ''unknown''))
                      (dict_get d ''description'' (PStr ''''))
                      (dict_get d ''tracking_number'' PNone)
                      (dict_get d ''speed'' PNone)
                      (dict_get d ''course'' PNone)
                      (dict_get d ''latitude'' PNone)
                      (dict_get d ''longitude'' PNone)
                      (dict_get d ''metadata'' (PDict []))))
      | _ \<Rightarrow> Inl TypeError)"

text \<open>
  Iterating over a Python value: a list yields its elements, a dictionary its keys, a
  string its characters; the other classes are not iterable.
\<close>

definition py_iter :: "pyval \<Rightarrow> error + pyval list" where
  "py_iter v =
     (case v of
        PList xs \<Rightarrow> Inr xs
      | PDict d \<Rightarrow> Inr (map (\<lambda>(k, x). PStr k) d)
      | PStr s \<Rightarrow> Inr (map (\<lambda>c. PStr [c]) s)
      | _ \<Rightarrow> Inl TypeError)"

text \<open>The list comprehension of \<^verbatim>\<open>parse_json_data\<close>: the first exception ends it.\<close>

fun parse_events :: "library \<Rightarrow> pyval list \<Rightarrow> error + MissionEvent list" where
  "parse_events L [] = Inr []"
| "parse_events L (ev # rest) =
     (case parse_event L ev of
        Inl e \<Rightarrow> Inl e
      | Inr x \<Rightarrow> (case parse_events L rest of Inl e \<Rightarrow> Inl e | Inr xs \<Rightarrow> Inr (x # xs)))"

text \<open>
  \<^verbatim>\<open>parse_json_data\<close>, lines 64-77: the events first, then the constructor's arguments
  in the order they are written.
\<close>

definition parse_json_data :: "library \<Rightarrow> (string \<times> pyval) list \<Rightarrow> error + MissionLog" where
  "parse_json_data L data =
     (case py_iter (dict_get data ''events'' (PList [])) of
        Inl e \<Rightarrow> Inl e
      | Inr evs \<Rightarrow>
     (case parse_events L evs of
        Inl e \<Rightarrow> Inl e
      | Inr parsed \<Rightarrow>
     (case map_of data ''start_time'' of
        None \<Rightarrow> Inl KeyError
      | Some st \<Rightarrow>
     (case parse_timestamp L st of
        Inl e \<Rightarrow> Inl e
      | Inr start \<Rightarrow>
     (case (case map_of data ''end_time'' of
              None \<Rightarrow> Inr PNone
            | Some et \<Rightarrow> (case parse_timestamp L et of
                            Inl e \<Rightarrow> Inl e | Inr t \<Rightarrow> Inr (PDatetime t))) of
        Inl e \<Rightarrow> Inl e
      | Inr endv \<Rightarrow>
          MissionLog_init L
            (dict_get data ''mission_id'' (PStr ''unknown''))
            (dict_get data ''mission_name'' (PStr ''Unnamed Mission''))
            (PDatetime start) endv
            (dict_get data ''vessel_name'' (PStr ''Unknown Vessel''))
            parsed (PDict data))))))"

text \<open>
  The accepted timestamp values as the specification lists them, for comparison with
  the code: a string in one of the listed formats, or a number.
\<close>

definition spec_accepts :: "library \<Rightarrow> pyval \<Rightarrow> bool" where
  "spec_accepts L ts =
     (case ts of
        PStr s \<Rightarrow> (\<exists>fmt \<in> set formats. strptime L s fmt \<noteq> None)
      | PInt n \<Rightarrow> True
      | PFloat x \<Rightarrow> True
      | _ \<Rightarrow> False)"

section \<open>Compliance rule engine (rag_pipeline.py)\<close>

text \<open>\<^verbatim>\<open>_determine_compliance\<close>, lines 221-249. The second argument is not read.\<close>

definition determine_compliance :: "MissionEvent \<Rightarrow> string \<Rightarrow> string" where
  "determine_compliance event expected_action =
     (let has_tracking = (tracking_number event \<noteq> None);
          has_timestamp = (timestamp event \<noteq> None)
      in if event_type event = ''speed_change'' then
           (if has_tracking \<and> has_timestamp \<and> speed event \<noteq> None then ''compliant''
            else if has_timestamp then ''partial''
            else ''non-compliant'')
         else if event_type event = ''contact_detection'' then
           (if has_tracking \<and> has_timestamp then ''compliant'' else ''non-compliant'')
         else ''unclear'')"

section \<open>Doctrine store (doctrine_indexer.py)\<close>

text \<open>
  A langchain \<^verbatim>\<open>Document\<close>, and the FAISS vector store object with the one method the
  repository calls on it. Embedding the query and the nearest-neighbour search over the
  index happen inside \<^verbatim>\<open>similarity_search\<close>, in the library.
\<close>

record Document =
  page_content :: string
  doc_metadata :: "(string \<times> pyval) list"

record FAISS =
  similarity_search :: "string \<Rightarrow> nat \<Rightarrow> error + Document list"

record DoctrineIndexer =
  vector_store :: "FAISS option"

text \<open>\<^verbatim>\<open>__init__\<close>, line 42: a new indexer has no vector store.\<close>

definition DoctrineIndexer_init :: DoctrineIndexer where
  "DoctrineIndexer_init = \<lparr>vector_store = None\<rparr>"



text \<open>\<^verbatim>\<open>search\<close>, lines 169-174.\<close>

definition search :: "DoctrineIndexer \<Rightarrow> string \<Rightarrow> nat \<Rightarrow> error + Document list" where
  "search self query k =
     (case vector_store self of
        None \<Rightarrow> Inl ValueError
      | Some vs \<Rightarrow> similarity_search vs query k)"

section \<open>Analysis pipeline (rag_pipeline.py)\<close>

text \<open>
  The result records of models.py. Fields whose names another record or Isabelle
  already uses carry a prefix (\<open>ref_section\<close>, \<open>ref_context\<close>, \<open>result_timestamp\<close>,
  \<open>analysis_\<close>).
\<close>

record DoctrineReference =
  doctrine_id :: string
  doctrine_name :: string
  ref_section :: string
  requirement :: string
  ref_context :: string

record ComparisonResult =
  result_timestamp :: datetime
  event_description :: string
  actual_action :: string
  expected_action :: string
  compliance_status :: string
  doctrine_references :: "DoctrineReference list"
  analysis :: string
  severity :: "string option"

record MissionAnalysis =
  analysis_mission_id :: string
  analysis_mission_name :: string
  analysis_timestamp :: datetime
  comparisons :: "ComparisonResult list"
  analysis_summary :: string
  analysis_lessons_learned :: "string list"
  analysis_recommendations :: "string list"
  overall_compliance_score :: "real option"

text \<open>\<^verbatim>\<open>AnalysisState\<close>, lines 20-28: the accumulator the four nodes share.\<close>

record AnalysisState =
  mission_log :: MissionLog
  current_event :: "MissionEvent option"
  doctrine_context :: "Document list"
  comparison_results :: "ComparisonResult list"
  summary :: string
  lessons_learned :: "string list"
  recommendations :: "string list"

text \<open>
  The validating constructors. Arguments that the caller builds as strings are typed
  \<open>string\<close>; the two that come out of a document's metadata, and the timestamp read from
  the event, are validated.
\<close>

definition DoctrineReference_init ::
  "library \<Rightarrow> pyval \<Rightarrow> pyval \<Rightarrow> string \<Rightarrow> string \<Rightarrow> string \<Rightarrow> error + DoctrineReference" where
  "DoctrineReference_init L did dname sec req ctx =
     (if validate_str L did = None \<or> validate_str L dname = None then Inl ValidationError
      else Inr \<lparr>doctrine_id = the (validate_str L did),
                doctrine_name = the (validate_str L dname),
                ref_section = sec, requirement = req, ref_context = ctx\<rparr>)"

definition ComparisonResult_init ::
  "datetime option \<Rightarrow> string \<Rightarrow> string \<Rightarrow> string \<Rightarrow> string \<Rightarrow> DoctrineReference list
     \<Rightarrow> string \<Rightarrow> string option \<Rightarrow> error + ComparisonResult" where
  "ComparisonResult_init ts ed aa ea cs refs an sev =
     (case ts of
        None \<Rightarrow> Inl ValidationError
      | Some t \<Rightarrow>
          Inr \<lparr>result_timestamp = t, event_description = ed, actual_action = aa,
               expected_action = ea, compliance_status = cs, doctrine_references = refs,
               analysis = an, severity = sev\<rparr>)"

text \<open>\<^verbatim>\<open>str\<close> of a natural number, \<^verbatim>\<open>sep.join\<close>, and the characters a literal cannot hold.\<close>

fun str_nat :: "nat \<Rightarrow> string" where
  "str_nat n =
     (if n < 10 then [''0123456789'' ! n]
      else str_nat (n div 10) @ [''0123456789'' ! (n mod 10)])"

declare str_nat.simps [simp del]

fun join :: "string \<Rightarrow> string list \<Rightarrow> string" where
  "join sep [] = []"
| "join sep [x] = x"
| "join sep (x # y # ys) = x @ sep @ join sep (y # ys)"

definition newline :: string where
  "newline = [CHR 0x0A]"

definition quote :: string where
  "quote = [CHR 0x27]"

text \<open>\<^verbatim>\<open>_analyze_events_node\<close>, lines 83-95. It raises nothing.\<close>

definition analyze_events_node :: "AnalysisState \<Rightarrow> error + AnalysisState" where
  "analyze_events_node state =
     Inr (state\<lparr>comparison_results := [],
                current_event := (case events (mission_log state) of
                                    [] \<Rightarrow> None | e # es \<Rightarrow> Some e)\<rparr>)"

text \<open>
  \<^verbatim>\<open>_retrieve_doctrine_node\<close>, lines 97-123: the queries, the search loop over the first
  five of them, and the loop that drops documents whose text was seen.
\<close>

definition event_descriptions :: "MissionLog \<Rightarrow> string list" where
  "event_descriptions mlog = map (\<lambda>event. event_type event @ '': '' @ description event) (events mlog)"

fun search_all ::
  "DoctrineIndexer \<Rightarrow> string list \<Rightarrow> Document list \<Rightarrow> error + Document list" where
  "search_all ix [] all_doctrine_docs = Inr all_doctrine_docs"
| "search_all ix (desc # rest) all_doctrine_docs =
     (case search ix desc 3 of
        Inl e \<Rightarrow> Inl e
      | Inr docs \<Rightarrow> search_all ix rest (all_doctrine_docs @ docs))"

fun unique_docs :: "Document list \<Rightarrow> Document list \<Rightarrow> string set \<Rightarrow> Document list" where
  "unique_docs [] unique seen_content = unique"
| "unique_docs (doc # rest) unique seen_content =
     (if page_content doc \<notin> seen_content
      then unique_docs rest (unique @ [doc]) (insert (page_content doc) seen_content)
      else unique_docs rest unique seen_content)"

definition retrieve_doctrine_node :: "DoctrineIndexer \<Rightarrow> AnalysisState \<Rightarrow> error + AnalysisState" where
  "retrieve_doctrine_node ix state =
     (case search_all ix (take 5 (event_descriptions (mission_log state))) [] of
        Inl e \<Rightarrow> Inl e
      | Inr all_doctrine_docs \<Rightarrow>
          Inr (state\<lparr>doctrine_context := unique_docs all_doctrine_docs [] {}\<rparr>))"

text \<open>\<^verbatim>\<open>_get_expected_action_for_event\<close>, lines 196-219.\<close>

definition event_type_expectations :: "(string \<times> string) list" where
  "event_type_expectations =
     [(''speed_change'', ''Log timestamp, previous speed, new speed, reason, and tracking number. Changes > 5 knots require communication to all stations.''),
      (''course_change'', ''Log timestamp, previous course, new course, and tracking number. Notify navigation team for changes > 10 degrees.''),
      (''contact_detection'', ''Assign tracking number immediately. Log bearing, range, timestamp, and classification. Maintain continuous tracking.''),
      (''man_overboard'', ''Sound alarm, reduce speed to 5 knots, mark position with GPS timestamp, deploy recovery equipment.''),
      (''mission_start'', ''Log start time (UTC), record initial position, document objectives, verify systems.''),
      (''mission_end'', ''Log completion time, record final position, document outcomes, prepare debrief.'')]"

definition get_expected_action_for_event :: "MissionEvent \<Rightarrow> string \<Rightarrow> string" where
  "get_expected_action_for_event event doctrine_text =
     (case map_of event_type_expectations (event_type event) of
        Some expected \<Rightarrow> expected
      | None \<Rightarrow> ''Follow standard operational procedures and maintain detailed logs.'')"

text \<open>\<^verbatim>\<open>_determine_severity\<close>, lines 251-259.\<close>

definition severity_map :: "(string \<times> string) list" where
  "severity_map =
     [(''compliant'', ''info''), (''partial'', ''minor''),
      (''non-compliant'', ''major''), (''unclear'', ''minor'')]"

definition determine_severity :: "string \<Rightarrow> string" where
  "determine_severity status =
     (case map_of severity_map status of Some s \<Rightarrow> s | None \<Rightarrow> ''minor'')"

text \<open>\<^verbatim>\<open>_generate_event_analysis\<close>, lines 261-280.\<close>

definition generate_event_analysis :: "MissionEvent \<Rightarrow> string \<Rightarrow> string \<Rightarrow> string \<Rightarrow> string" where
  "generate_event_analysis event expected actual compliance =
     (if compliance = ''compliant'' then
        ''Event '' @ quote @ event_type event @ quote @ '' was properly documented with all required information including tracking number and timestamp. This follows doctrine requirements.''
      else if compliance = ''partial'' then
        ''Event '' @ quote @ event_type event @ quote @ '' was logged but missing some required information (e.g., tracking number). Recommend ensuring all events include complete documentation per doctrine.''
      else if compliance = ''non-compliant'' then
        ''Event '' @ quote @ event_type event @ quote @ '' did not meet doctrine requirements. Missing critical information such as tracking number or complete timestamp data. This should be addressed in future operations.''
      else
        ''Unable to fully determine compliance for event '' @ quote @ event_type event @ quote @ ''. Recommend manual review against doctrine requirements.'')"

text \<open>
  \<^verbatim>\<open>_analyze_event_against_doctrine\<close>, lines 150-194: the list comprehension over the
  first two documents (the slice \<^verbatim>\<open>[:200]\<close> is \<open>take 200\<close>), then the result. The
  function is declared to return an optional result and returns one on every path that
  does not raise.
\<close>

fun doctrine_refs :: "library \<Rightarrow> Document list \<Rightarrow> error + DoctrineReference list" where
  "doctrine_refs L [] = Inr []"
| "doctrine_refs L (doc # docs) =
     (case DoctrineReference_init L
             (dict_get (doc_metadata doc) ''source_file'' (PStr ''unknown''))
             (dict_get (doc_metadata doc) ''source_file'' (PStr ''Naval Doctrine''))
             ''General'' (take 200 (page_content doc)) (page_content doc) of
        Inl e \<Rightarrow> Inl e
      | Inr r \<Rightarrow> (case doctrine_refs L docs of Inl e \<Rightarrow> Inl e | Inr rs \<Rightarrow> Inr (r # rs)))"

definition analyze_event_against_doctrine ::
  "library \<Rightarrow> MissionEvent \<Rightarrow> string \<Rightarrow> Document list \<Rightarrow> error + ComparisonResult option" where
  "analyze_event_against_doctrine L event doctrine_text doctrine_docs =
     (let expected = get_expected_action_for_event event doctrine_text;
          actual = description event;
          status = determine_compliance event expected
      in case doctrine_refs L (take 2 doctrine_docs) of
           Inl e \<Rightarrow> Inl e
         | Inr refs \<Rightarrow>
             (case ComparisonResult_init (timestamp event) (description event) actual expected
                     status refs (generate_event_analysis event expected actual status)
                     (Some (determine_severity status)) of
                Inl e \<Rightarrow> Inl e
              | Inr c \<Rightarrow> Inr (Some c)))"

text \<open>
  \<^verbatim>\<open>_compare_actions_node\<close>, lines 125-148: the combined doctrine text and the loop over
  all events. A result object is true in a condition; \<^verbatim>\<open>None\<close> would be skipped.
\<close>

definition doctrine_text_of :: "Document list \<Rightarrow> string" where
  "doctrine_text_of doctrine_docs =
     join (newline @ newline)
       (map (\<lambda>(i, doc). ''DOCTRINE PASSAGE '' @ str_nat (i + 1) @ '':'' @ newline @ page_content doc)
            (enumerate 0 doctrine_docs))"

fun compare_events ::
  "library \<Rightarrow> MissionEvent list \<Rightarrow> string \<Rightarrow> Document list \<Rightarrow> ComparisonResult list
     \<Rightarrow> error + ComparisonResult list" where
  "compare_events L [] doctrine_text doctrine_docs results = Inr results"
| "compare_events L (event # rest) doctrine_text doctrine_docs results =
     (case analyze_event_against_doctrine L event doctrine_text doctrine_docs of
        Inl e \<Rightarrow> Inl e
      | Inr comparison \<Rightarrow>
          compare_events L rest doctrine_text doctrine_docs
            (case comparison of Some c \<Rightarrow> results @ [c] | None \<Rightarrow> results))"

definition compare_actions_node :: "library \<Rightarrow> AnalysisState \<Rightarrow> error + AnalysisState" where
  "compare_actions_node L state =
     (case compare_events L (events (mission_log state))
             (doctrine_text_of (doctrine_context state)) (doctrine_context state) [] of
        Inl e \<Rightarrow> Inl e
      | Inr results \<Rightarrow> Inr (state\<lparr>comparison_results := results\<rparr>))"

text \<open>
  \<^verbatim>\<open>_generate_summary_node\<close>, lines 282-334. The counts are natural numbers; the score is
  computed in the reals, where Python rounds to a double. In the summary f-string the
  replacement field of line 299 is \<^verbatim>\<open>{compliant/total_events*100:.1f}\<close>: the words
  \<^verbatim>\<open>if total_events > 0 else 0\<close> that follow it are text of the string, so the division
  is evaluated whatever the count is and raises \<^verbatim>\<open>ZeroDivisionError\<close> when there is no
  comparison.
\<close>

definition count_status :: "string \<Rightarrow> ComparisonResult list \<Rightarrow> nat" where
  "count_status status results = length (filter (\<lambda>c. compliance_status c = status) results)"

definition summary_text ::
  "library \<Rightarrow> MissionLog \<Rightarrow> nat \<Rightarrow> nat \<Rightarrow> nat \<Rightarrow> nat \<Rightarrow> real \<Rightarrow> string" where
  "summary_text L mlog total_events compliant partial non_compliant compliance_score =
     ''Mission Analysis Summary for '' @ mission_name mlog @ newline @ newline
     @ ''Total Events Analyzed: '' @ str_nat total_events @ newline
     @ ''Compliant: '' @ str_nat compliant @ '' (''
     @ format_1f L (real compliant / real total_events * 100)
     @ ''% if total_events > 0 else 0)'' @ newline
     @ ''Partial Compliance: '' @ str_nat partial @ newline
     @ ''Non-Compliant: '' @ str_nat non_compliant @ newline
     @ ''Overall Compliance Score: '' @ format_1f L compliance_score @ ''%'' @ newline @ newline
     @ ''The mission was conducted aboard '' @ vessel_name mlog @ '' from ''
     @ str_datetime L (start_time mlog) @ '' to ''
     @ (case end_time mlog of None \<Rightarrow> ''ongoing'' | Some d \<Rightarrow> str_datetime L d)
     @ ''.'' @ newline"

definition generate_summary_node :: "library \<Rightarrow> AnalysisState \<Rightarrow> error + AnalysisState" where
  "generate_summary_node L state =
     (let results = comparison_results state;
          total_events = length results;
          compliant = count_status ''compliant'' results;
          partial = count_status ''partial'' results;
          non_compliant = count_status ''non-compliant'' results;
          compliance_score =
            (if total_events > 0 then real compliant / real total_events * 100 else 0)
      in if total_events = 0 then Inl ZeroDivisionError
         else
           Inr (state
             \<lparr>summary := summary_text L (mission_log state) total_events compliant partial
                            non_compliant compliance_score,
              lessons_learned :=
                (if non_compliant > 0
                 then [str_nat non_compliant @ '' events did not meet doctrine requirements - ensure proper documentation procedures are followed'']
                 else [])
                @ (if partial > 0
                   then [str_nat partial @ '' events had partial compliance - review checklist for complete event logging'']
                   else [])
                @ (if compliant = total_events
                   then [''All events properly documented according to doctrine - excellent adherence to procedures'']
                   else []),
              recommendations :=
                (if non_compliant > 0 \<or> partial > 0
                 then [''Conduct refresher training on event documentation requirements'',
                       ''Implement pre-mission checklist review of documentation procedures'']
                 else [])
                @ [''Continue post-mission debriefs to reinforce lessons learned'']\<rparr>))"

text \<open>
  \<^verbatim>\<open>analyze_mission\<close>, lines 336-374. The compiled graph runs the four nodes in the order
  of its edges (lines 76-79), each node's result being merged into the state; an
  exception in a node ends the run.
\<close>

definition graph_invoke ::
  "library \<Rightarrow> DoctrineIndexer \<Rightarrow> AnalysisState \<Rightarrow> error + AnalysisState" where
  "graph_invoke L ix initial_state =
     (case analyze_events_node initial_state of
        Inl e \<Rightarrow> Inl e
      | Inr s1 \<Rightarrow>
     (case retrieve_doctrine_node ix s1 of
        Inl e \<Rightarrow> Inl e
      | Inr s2 \<Rightarrow>
     (case compare_actions_node L s2 of
        Inl e \<Rightarrow> Inl e
      | Inr s3 \<Rightarrow> generate_summary_node L s3)))"

definition initial_state :: "MissionLog \<Rightarrow> AnalysisState" where
  "initial_state mlog =
     \<lparr>mission_log = mlog, current_event = None, doctrine_context = [],
      comparison_results = [], summary = '''', lessons_learned = [], recommendations = []\<rparr>"

definition overall_score :: "ComparisonResult list \<Rightarrow> real" where
  "overall_score results =
     (if results \<noteq> []
      then real (count_status ''compliant'' results) / real (length results) * 100
      else 0)"

definition analyze_mission :: "library \<Rightarrow> DoctrineIndexer \<Rightarrow> MissionLog \<Rightarrow> error + MissionAnalysis" where
  "analyze_mission L ix mlog =
     (case graph_invoke L ix (initial_state mlog) of
        Inl e \<Rightarrow> Inl e
      | Inr result \<Rightarrow>
          Inr \<lparr>analysis_mission_id = mission_id mlog,
               analysis_mission_name = mission_name mlog,
               analysis_timestamp = now L,
               comparisons = comparison_results result,
               analysis_summary = summary result,
               analysis_lessons_learned = lessons_learned result,
               analysis_recommendations = recommendations result,
               overall_compliance_score = Some (overall_score (comparison_results result))\<rparr>)"

text \<open>
  Keeping, of the documents with the same text, the first one: the list function the
  deduplication loop is compared with.
\<close>

fun first_occurrences :: "Document list \<Rightarrow> Document list" where
  "first_occurrences [] = []"
| "first_occurrences (d # ds) =
     d # first_occurrences (filter (\<lambda>d'. page_content d' \<noteq> page_content d) ds)"

section \<open>Vector store search\<close>







section \<open>Sample inputs\<close>

text \<open>
  Concrete inputs for the instances below. \<open>sample_library\<close> stands in for the library
  functions: its \<open>strptime\<close> knows one timestamp string under the one format that
  matches it, and its \<open>fromtimestamp\<close> knows the epochs 0 and 1 (\<^verbatim>\<open>True\<close> is 1) as a
  machine in the UTC time zone converts them; at these values they agree with Python.
\<close>

definition sample_library :: library where
  "sample_library =
     \<lparr>strptime = (\<lambda>s fmt. if s = ''2024-11-14T08:00:00Z'' \<and> fmt = ''%Y-%m-%dT%H:%M:%SZ''
                           then Some (Datetime 2024 11 14 8 0 0 0) else None),
      fromtimestamp = (\<lambda>v. if v = PInt 0 then Inr (Datetime 1970 1 1 0 0 0 0)
                            else if v = PInt 1 \<or> v = PBool True
                            then Inr (Datetime 1970 1 1 0 0 1 0)
                            else Inl OverflowError),
      coerce_str = (\<lambda>v. None),
      coerce_float = (\<lambda>v. case v of PInt n \<Rightarrow> Some (real_of_int n) | _ \<Rightarrow> None),
      coerce_dict = (\<lambda>v. None),
      coerce_datetime = (\<lambda>v. None),
      format_1f = (\<lambda>x. ''0.0''),
      str_datetime = (\<lambda>d. ''2024-11-14 08:00:00''),
      now = Datetime 2024 11 15 0 0 0 0\<rparr>"

definition doc_speed :: Document where
  "doc_speed = \<lparr>page_content = ''All speed changes must be logged with timestamp and tracking number'',
                 doc_metadata = [(''source_file'', PStr ''sample_naval_doctrine.txt'')]\<rparr>"

definition doc_contact :: Document where
  "doc_contact = \<lparr>page_content = ''Upon detecting surface contact: immediately assign tracking number'',
                   doc_metadata = [(''source_file'', PStr ''sample_naval_doctrine.txt'')]\<rparr>"

definition doc_debrief :: Document where
  "doc_debrief = \<lparr>page_content = ''All missions require post-mission debrief'',
                   doc_metadata = []\<rparr>"


definition sample_store :: FAISS where
  "sample_store =
     \<lparr>similarity_search = (\<lambda>query k.
        if query = ''speed_change: Increased speed to 15 knots''
        then Inr (take k [doc_speed, doc_contact, doc_debrief])
        else Inr (take k [doc_contact, doc_speed, doc_debrief]))\<rparr>"

definition sample_indexer :: DoctrineIndexer where
  "sample_indexer = \<lparr>vector_store = Some sample_store\<rparr>"


definition speed_event :: MissionEvent where
  "speed_event =
     \<lparr>timestamp = Some (Datetime 2024 11 14 8 15 0 0), event_type = ''speed_change'',
      description = ''Increased speed to 15 knots'', tracking_number = Some ''TRK-001'',
      speed = Some 15, course = Some 90, latitude = None, longitude = None, metadata = []\<rparr>"

definition contact_event :: MissionEvent where
  "contact_event =
     \<lparr>timestamp = Some (Datetime 2024 11 14 9 30 0 0), event_type = ''contact_detection'',
      description = ''Surface contact detected bearing 045'', tracking_number = None,
      speed = None, course = None, latitude = None, longitude = None, metadata = []\<rparr>"

definition sample_log :: MissionLog where
  "sample_log =
     \<lparr>mission_id = ''MISSION-2024-001'', mission_name = ''Training Exercise Alpha'',
      start_time = Datetime 2024 11 14 8 0 0 0, end_time = None,
      vessel_name = ''USS Example'', events = [speed_event, contact_event],
      raw_data = None\<rparr>"

definition empty_log :: MissionLog where
  "empty_log =
     \<lparr>mission_id = ''MISSION-2024-002'', mission_name = ''No events'',
      start_time = Datetime 2024 11 14 8 0 0 0, end_time = None,
      vessel_name = ''USS Example'', events = [], raw_data = None\<rparr>"

definition retrieved_state :: AnalysisState where
  "retrieved_state =
     \<lparr>mission_log = sample_log, current_event = Some speed_event,
      doctrine_context = [doc_speed, doc_contact, doc_debrief],
      comparison_results = [], summary = '''', lessons_learned = [], recommendations = []\<rparr>"

section \<open>Compliance classification\<close>

text \<open>
  C1. For every event: a \<^verbatim>\<open>speed_change\<close> is compliant when tracking number, timestamp
  and speed are all present; failing that, it is partial when the timestamp is present
  (the tracking number or the speed is missing), and non-compliant otherwise, that is
  when the timestamp is absent. A \<^verbatim>\<open>contact_detection\<close> is compliant when tracking
  number and timestamp are present and non-compliant otherwise. Every other event type
  is unclear.
\<close>

theorem determine_compliance_table:
  "determine_compliance event expected =
     (if event_type event = ''speed_change'' then
        (if timestamp event = None then ''non-compliant''
         else if tracking_number event = None \<or> speed event = None then ''partial''
         else ''compliant'')
      else if event_type event = ''contact_detection'' then
        (if tracking_number event = None \<or> timestamp event = None then ''non-compliant''
         else ''compliant'')
      else ''unclear'')"
  by (simp add: determine_compliance_def)

text \<open>
  C9. The classifier returns non-compliant for a \<^verbatim>\<open>speed_change\<close> event exactly when the
  timestamp is absent. A \<^verbatim>\<open>MissionEvent\<close> that the validating constructor returned has
  a timestamp, so a \<^verbatim>\<open>speed_change\<close> event built that way is classified compliant or
  partial, never non-compliant.
\<close>

theorem constructed_speed_change_never_non_compliant:
  assumes "MissionEvent_init L ts et de tn sp co la lo md = Inr event"
    and "event_type event = ''speed_change''"
  shows "timestamp event \<noteq> None
         \<and> determine_compliance event expected \<noteq> ''non-compliant''
         \<and> (determine_compliance event expected = ''compliant''
            \<or> determine_compliance event expected = ''partial'')
         \<and> (\<forall>e. event_type e = ''speed_change'' \<longrightarrow>
               (determine_compliance e expected = ''non-compliant'') = (timestamp e = None))"
proof -
  from assms(1) have "timestamp event \<noteq> None"
    by (auto simp: MissionEvent_init_def split: if_splits)
  with assms(2) have here: "timestamp event \<noteq> None
         \<and> determine_compliance event expected \<noteq> ''non-compliant''
         \<and> (determine_compliance event expected = ''compliant''
            \<or> determine_compliance event expected = ''partial'')"
    by (simp add: determine_compliance_def)
  have "\<forall>e. event_type e = ''speed_change'' \<longrightarrow>
          (determine_compliance e expected = ''non-compliant'') = (timestamp e = None)"
    by (auto simp: determine_compliance_def Let_def)
  with here show ?thesis by blast
qed

text \<open>An instance: a speed change without tracking number, built by the constructor.\<close>

theorem constructed_speed_change_witness:
  "MissionEvent_init sample_library (PDatetime (Datetime 2024 11 14 12 0 0 0))
       (PStr ''speed_change'') (PStr ''Reduced speed'') PNone (PFloat 5) PNone PNone PNone
       (PDict [])
     = Inr \<lparr>timestamp = Some (Datetime 2024 11 14 12 0 0 0), event_type = ''speed_change'',
            description = ''Reduced speed'', tracking_number = None, speed = Some 5,
            course = None, latitude = None, longitude = None, metadata = []\<rparr>
   \<and> determine_compliance
        \<lparr>timestamp = Some (Datetime 2024 11 14 12 0 0 0), event_type = ''speed_change'',
         description = ''Reduced speed'', tracking_number = None, speed = Some 5,
         course = None, latitude = None, longitude = None, metadata = []\<rparr> ''''
       = ''partial''"
proof -
  have c: "MissionEvent_init sample_library (PDatetime (Datetime 2024 11 14 12 0 0 0))
       (PStr ''speed_change'') (PStr ''Reduced speed'') PNone (PFloat 5) PNone PNone PNone
       (PDict [])
     = Inr \<lparr>timestamp = Some (Datetime 2024 11 14 12 0 0 0), event_type = ''speed_change'',
            description = ''Reduced speed'', tracking_number = None, speed = Some 5,
            course = None, latitude = None, longitude = None, metadata = []\<rparr>"
    by (simp add: MissionEvent_init_def validate_datetime_def validate_str_def
        validate_float_def validate_dict_def validate_optional_def)
  from constructed_speed_change_never_non_compliant [OF c, of "''''"]
  show ?thesis using c by (simp add: determine_compliance_def)
qed


section \<open>Timestamp and event parsing\<close>

lemma validate_str_get:
  "(validate_str L (dict_get d k (PStr s)) = None)
     = (\<exists>v. map_of d k = Some v \<and> validate_str L v = None)"
  by (auto simp: dict_get_def validate_str_def split: option.splits)

lemma validate_dict_get:
  "(validate_dict L (dict_get d k (PDict m)) = None)
     = (\<exists>v. map_of d k = Some v \<and> validate_dict L v = None)"
  by (auto simp: dict_get_def validate_dict_def split: option.splits)

lemma validate_optional_get:
  "(validate_optional f (dict_get d k PNone) = None)
     = (\<exists>v. map_of d k = Some v \<and> validate_optional f v = None)"
  by (auto simp: dict_get_def validate_optional_def split: option.splits)

lemma if_Inl_iff: "(\<exists>err. (if c then Inl a else Inr b) = Inl err) = c"
  by simp

lemma MissionEvent_init_error:
  "(\<exists>err. MissionEvent_init L ts et de tn sp co la lo md = Inl err)
     = (validate_datetime L ts = None \<or> validate_str L et = None \<or> validate_str L de = None
         \<or> validate_optional (validate_str L) tn = None
         \<or> validate_optional (validate_float L) sp = None
         \<or> validate_optional (validate_float L) co = None
         \<or> validate_optional (validate_float L) la = None
         \<or> validate_optional (validate_float L) lo = None
         \<or> validate_dict L md = None)"
  unfolding MissionEvent_init_def by (rule if_Inl_iff)

lemma try_formats_Some:
  "(try_formats L s fmts = Some d)
     = (\<exists>i < length fmts. strptime L s (fmts ! i) = Some d
          \<and> (\<forall>j < i. strptime L s (fmts ! j) = None))"
proof (induction fmts)
  case Nil
  then show ?case by simp
next
  case (Cons fmt fmts)
  show ?case
  proof (cases "strptime L s fmt")
    case None
    have "(\<exists>i < length (fmt # fmts). strptime L s ((fmt # fmts) ! i) = Some d
          \<and> (\<forall>j < i. strptime L s ((fmt # fmts) ! j) = None))
        = (\<exists>i < length fmts. strptime L s (fmts ! i) = Some d
          \<and> (\<forall>j < i. strptime L s (fmts ! j) = None))" (is "?A = ?B")
    proof
      assume ?A
      then obtain i where i: "i < length (fmt # fmts)" "strptime L s ((fmt # fmts) ! i) = Some d"
        "\<forall>j < i. strptime L s ((fmt # fmts) ! j) = None" by blast
      with None obtain i' where i': "i = Suc i'" by (cases i) auto
      have "\<forall>j < i'. strptime L s (fmts ! j) = None"
      proof (intro allI impI)
        fix j assume "j < i'"
        then have "Suc j < i" using i' by simp
        with i(3) have "strptime L s ((fmt # fmts) ! Suc j) = None" by blast
        then show "strptime L s (fmts ! j) = None" by simp
      qed
      with i i' show ?B by auto
    next
      assume ?B
      then obtain i where i: "i < length fmts" "strptime L s (fmts ! i) = Some d"
        "\<forall>j < i. strptime L s (fmts ! j) = None" by blast
      have "\<forall>j < Suc i. strptime L s ((fmt # fmts) ! j) = None"
      proof (intro allI impI)
        fix j assume "j < Suc i"
        then show "strptime L s ((fmt # fmts) ! j) = None"
          using None i(3) by (cases j) auto
      qed
      with i show ?A by (intro exI[of _ "Suc i"]) auto
    qed
    with None Cons show ?thesis by simp
  next
    case (Some d')
    have "(\<exists>i < length (fmt # fmts). strptime L s ((fmt # fmts) ! i) = Some d
          \<and> (\<forall>j < i. strptime L s ((fmt # fmts) ! j) = None)) = (d' = d)" (is "?A = ?B")
    proof
      assume ?A
      then obtain i where i: "i < length (fmt # fmts)" "strptime L s ((fmt # fmts) ! i) = Some d"
        "\<forall>j < i. strptime L s ((fmt # fmts) ! j) = None" by blast
      have "i = 0"
      proof (rule ccontr)
        assume "i \<noteq> 0"
        then have "0 < i" by simp
        with i(3) have "strptime L s ((fmt # fmts) ! 0) = None" by blast
        with Some show False by simp
      qed
      with i(2) Some show ?B by simp
    next
      assume ?B
      with Some show ?A by (intro exI[of _ 0]) auto
    qed
    with Some show ?thesis by simp
  qed
qed

lemma try_formats_None:
  "(try_formats L s fmts = None) = (\<forall>fmt \<in> set fmts. strptime L s fmt = None)"
  by (induction fmts) (auto split: option.splits)


lemma parse_timestamp_ok_iff:
  "(\<exists>d. parse_timestamp L ts = Inr d) =
     (case ts of
        PDatetime d \<Rightarrow> True
      | PStr s \<Rightarrow> (\<exists>fmt \<in> set formats. strptime L s fmt \<noteq> None)
      | PInt n \<Rightarrow> (\<exists>d. fromtimestamp L ts = Inr d)
      | PFloat x \<Rightarrow> (\<exists>d. fromtimestamp L ts = Inr d)
      | PBool b \<Rightarrow> (\<exists>d. fromtimestamp L ts = Inr d)
      | _ \<Rightarrow> False)"
proof (cases ts)
  case (PStr s)
  have "(\<exists>d. try_formats L s formats = Some d) = (\<exists>fmt \<in> set formats. strptime L s fmt \<noteq> None)"
    using try_formats_None [of L s formats] by (cases "try_formats L s formats") auto
  then show ?thesis using PStr
    by (auto simp: parse_timestamp_def split: option.splits)
qed (simp_all add: parse_timestamp_def)

lemma parse_timestamp_str:
  "(parse_timestamp L (PStr s) = Inr d) =
     (\<exists>i < length formats. strptime L s (formats ! i) = Some d
        \<and> (\<forall>j < i. strptime L s (formats ! j) = None))"
  using try_formats_Some [of L s formats d]
  by (auto simp: parse_timestamp_def split: option.splits)

lemma parse_timestamp_error:
  "parse_timestamp L ts = Inl e \<Longrightarrow>
     (case ts of
        PInt n \<Rightarrow> fromtimestamp L ts = Inl e
      | PFloat x \<Rightarrow> fromtimestamp L ts = Inl e
      | PBool b \<Rightarrow> fromtimestamp L ts = Inl e
      | _ \<Rightarrow> e = ValueError)"
  by (cases ts) (auto simp: parse_timestamp_def split: option.splits)

lemma parse_events_error:
  "ev \<in> set evs \<Longrightarrow> parse_event L ev = Inl e \<Longrightarrow> \<exists>e'. parse_events L evs = Inl e'"
  by (induction evs) (auto split: sum.splits)

lemma parse_event_bad_timestamp:
  "map_of d ''timestamp'' = Some ts \<Longrightarrow> parse_timestamp L ts = Inl e
     \<Longrightarrow> parse_event L (PDict d) = Inl e"
  by (simp add: parse_event_def)

lemma parse_json_data_bad_event:
  assumes "map_of data ''events'' = Some (PList evs)" and "ev \<in> set evs"
    and "parse_event L ev = Inl e"
  shows "\<exists>e'. parse_json_data L data = Inl e'"
proof -
  from parse_events_error [OF assms(2,3)] obtain e' where "parse_events L evs = Inl e'" ..
  with assms(1) show ?thesis
    by (simp add: parse_json_data_def dict_get_def py_iter_def)
qed

text \<open>
  C8 (amended). Timestamp parsing accepts: a value that already is a \<^verbatim>\<open>datetime\<close>, returned
  unchanged; a string that \<^verbatim>\<open>strptime\<close> parses under one of the five formats, the result
  being that of the first format, in the order of the list, that parses it; and a number
  (\<^verbatim>\<open>int\<close>, \<^verbatim>\<open>float\<close>, and \<^verbatim>\<open>bool\<close>, which Python counts as \<^verbatim>\<open>int\<close>) that
  \<^verbatim>\<open>datetime.fromtimestamp\<close> converts. Nothing else is accepted. A string that no format
  parses and a value of another class (\<^verbatim>\<open>None\<close>, a list, a dictionary) raise
  \<^verbatim>\<open>ValueError\<close>; a number that \<^verbatim>\<open>fromtimestamp\<close> refuses raises the exception of
  \<^verbatim>\<open>fromtimestamp\<close> itself, which is not caught and need not be a \<^verbatim>\<open>ValueError\<close>. A
  timestamp that does not parse, in any event of the list, makes \<^verbatim>\<open>parse_json_data\<close>
  raise: no mission log is returned.
\<close>

theorem parse_timestamp_accepts:
  "((\<exists>d. parse_timestamp L ts = Inr d) \<longleftrightarrow>
      (case ts of
         PDatetime d \<Rightarrow> True
       | PStr s \<Rightarrow> (\<exists>fmt \<in> set formats. strptime L s fmt \<noteq> None)
       | PInt n \<Rightarrow> (\<exists>d. fromtimestamp L ts = Inr d)
       | PFloat x \<Rightarrow> (\<exists>d. fromtimestamp L ts = Inr d)
       | PBool b \<Rightarrow> (\<exists>d. fromtimestamp L ts = Inr d)
       | _ \<Rightarrow> False))
   \<and> (\<forall>d. parse_timestamp L (PDatetime d) = Inr d)
   \<and> (\<forall>s d. parse_timestamp L (PStr s) = Inr d \<longleftrightarrow>
         (\<exists>i < length formats. strptime L s (formats ! i) = Some d
            \<and> (\<forall>j < i. strptime L s (formats ! j) = None)))
   \<and> (\<forall>e. parse_timestamp L ts = Inl e \<longrightarrow>
         (case ts of
            PInt n \<Rightarrow> fromtimestamp L ts = Inl e
          | PFloat x \<Rightarrow> fromtimestamp L ts = Inl e
          | PBool b \<Rightarrow> fromtimestamp L ts = Inl e
          | _ \<Rightarrow> e = ValueError))
   \<and> (\<forall>data evs ev e.
         map_of data ''events'' = Some (PList evs) \<and> PDict ev \<in> set evs
         \<and> map_of ev ''timestamp'' = Some ts \<and> parse_timestamp L ts = Inl e
         \<longrightarrow> (\<exists>e'. parse_json_data L data = Inl e'))"
proof (intro conjI allI impI)
  show "(\<exists>d. parse_timestamp L ts = Inr d) \<longleftrightarrow>
      (case ts of
         PDatetime d \<Rightarrow> True
       | PStr s \<Rightarrow> (\<exists>fmt \<in> set formats. strptime L s fmt \<noteq> None)
       | PInt n \<Rightarrow> (\<exists>d. fromtimestamp L ts = Inr d)
       | PFloat x \<Rightarrow> (\<exists>d. fromtimestamp L ts = Inr d)
       | PBool b \<Rightarrow> (\<exists>d. fromtimestamp L ts = Inr d)
       | _ \<Rightarrow> False)"
    by (rule parse_timestamp_ok_iff)
next
  fix d show "parse_timestamp L (PDatetime d) = Inr d"
    by (simp add: parse_timestamp_def)
next
  fix s d
  show "parse_timestamp L (PStr s) = Inr d \<longleftrightarrow>
         (\<exists>i < length formats. strptime L s (formats ! i) = Some d
            \<and> (\<forall>j < i. strptime L s (formats ! j) = None))"
    by (rule parse_timestamp_str)
next
  fix e assume "parse_timestamp L ts = Inl e"
  then show "case ts of
            PInt n \<Rightarrow> fromtimestamp L ts = Inl e
          | PFloat x \<Rightarrow> fromtimestamp L ts = Inl e
          | PBool b \<Rightarrow> fromtimestamp L ts = Inl e
          | _ \<Rightarrow> e = ValueError"
    by (rule parse_timestamp_error)
next
  fix data evs ev e
  assume a: "map_of data ''events'' = Some (PList evs) \<and> PDict ev \<in> set evs
         \<and> map_of ev ''timestamp'' = Some ts \<and> parse_timestamp L ts = Inl e"
  then have "parse_event L (PDict ev) = Inl e"
    by (simp add: parse_event_bad_timestamp)
  with a show "\<exists>e'. parse_json_data L data = Inl e'"
    using parse_json_data_bad_event by blast
qed

lemma sample_strptime_good:
  "try_formats sample_library ''2024-11-14T08:00:00Z'' formats = Some (Datetime 2024 11 14 8 0 0 0)"
  by (simp add: formats_def sample_library_def)

lemma sample_strptime_bad:
  "try_formats sample_library ''yesterday'' formats = None"
  by (simp add: formats_def sample_library_def)

text \<open>
  An instance: the second event's timestamp matches no format, and the parse of the whole
  log raises.
\<close>

theorem parse_timestamp_accepts_witness:
  "parse_timestamp sample_library (PStr ''yesterday'') = Inl ValueError
   \<and> parse_json_data sample_library
        [(''start_time'', PStr ''2024-11-14T08:00:00Z''),
         (''events'', PList [PDict [(''timestamp'', PStr ''2024-11-14T08:00:00Z'')],
                             PDict [(''timestamp'', PStr ''yesterday'')]])]
       = Inl ValueError"
proof -
  have bad: "parse_timestamp sample_library (PStr ''yesterday'') = Inl ValueError"
    by (simp add: parse_timestamp_def sample_strptime_bad)
  have good: "parse_timestamp sample_library (PStr ''2024-11-14T08:00:00Z'')
      = Inr (Datetime 2024 11 14 8 0 0 0)"
    by (simp add: parse_timestamp_def sample_strptime_good)
  have ev: "\<exists>x. parse_event sample_library (PDict [(''timestamp'', PStr ''2024-11-14T08:00:00Z'')]) = Inr x"
    by (simp add: parse_event_def good MissionEvent_init_def dict_get_def validate_datetime_def
        validate_str_def validate_dict_def validate_optional_def)
  note whole = parse_timestamp_accepts [of sample_library "PStr ''yesterday''",
      THEN conjunct2, THEN conjunct2, THEN conjunct2, THEN conjunct2, rule_format,
      of "[(''start_time'', PStr ''2024-11-14T08:00:00Z''),
           (''events'', PList [PDict [(''timestamp'', PStr ''2024-11-14T08:00:00Z'')],
                               PDict [(''timestamp'', PStr ''yesterday'')]])]"
         "[PDict [(''timestamp'', PStr ''2024-11-14T08:00:00Z'')],
           PDict [(''timestamp'', PStr ''yesterday'')]]"
         "[(''timestamp'', PStr ''yesterday'')]" ValueError]
  have "\<exists>e'. parse_json_data sample_library
        [(''start_time'', PStr ''2024-11-14T08:00:00Z''),
         (''events'', PList [PDict [(''timestamp'', PStr ''2024-11-14T08:00:00Z'')],
                             PDict [(''timestamp'', PStr ''yesterday'')]])] = Inl e'"
    by (rule whole) (simp add: bad)
  moreover have "parse_event sample_library (PDict [(''timestamp'', PStr ''yesterday'')]) = Inl ValueError"
    by (simp add: parse_event_def bad)
  ultimately show ?thesis using bad ev
    by (auto simp: parse_json_data_def dict_get_def py_iter_def split: sum.splits)
qed

text \<open>
  C8 (as stated, refuted). The claim lists strings in the given formats and numbers as
  the only accepted values. The first test of \<^verbatim>\<open>parse_timestamp\<close> accepts a
  \<^verbatim>\<open>datetime\<close> object, and the JSON value \<^verbatim>\<open>true\<close> passes the numeric test.
\<close>

theorem parse_timestamp_accepts_more:
  "parse_timestamp sample_library (PDatetime (Datetime 2024 11 14 8 0 0 0))
     = Inr (Datetime 2024 11 14 8 0 0 0)
   \<and> \<not> spec_accepts sample_library (PDatetime (Datetime 2024 11 14 8 0 0 0))
   \<and> parse_timestamp sample_library (PBool True) = Inr (Datetime 1970 1 1 0 0 1 0)
   \<and> \<not> spec_accepts sample_library (PBool True)"
  by (simp add: parse_timestamp_def spec_accepts_def sample_library_def)


lemma parse_event_error_cases:
  "(\<exists>err. parse_event L (PDict d) = Inl err) =
     (case map_of d ''timestamp'' of
        None \<Rightarrow> True
      | Some ts \<Rightarrow>
          (\<exists>err. parse_timestamp L ts = Inl err)
          \<or> (\<exists>v. map_of d ''event_type'' = Some v \<and> validate_str L v = None)
          \<or> (\<exists>v. map_of d ''description'' = Some v \<and> validate_str L v = None)
          \<or> (\<exists>v. map_of d ''tracking_number'' = Some v
                 \<and> validate_optional (validate_str L) v = None)
          \<or> (\<exists>v. map_of d ''speed'' = Some v \<and> validate_optional (validate_float L) v = None)
          \<or> (\<exists>v. map_of d ''course'' = Some v \<and> validate_optional (validate_float L) v = None)
          \<or> (\<exists>v. map_of d ''latitude'' = Some v
                 \<and> validate_optional (validate_float L) v = None)
          \<or> (\<exists>v. map_of d ''longitude'' = Some v
                 \<and> validate_optional (validate_float L) v = None)
          \<or> (\<exists>v. map_of d ''metadata'' = Some v \<and> validate_dict L v = None))"
proof (cases "map_of d ''timestamp''")
  case None
  then show ?thesis by (simp add: parse_event_def)
next
  case (Some ts)
  show ?thesis
  proof (cases "parse_timestamp L ts")
    case (Inl e)
    with Some show ?thesis by (simp add: parse_event_def)
  next
    case (Inr t)
    have dt: "validate_datetime L (PDatetime t) \<noteq> None"
      by (simp add: validate_datetime_def)
    from Some Inr show ?thesis
      by (simp add: parse_event_def MissionEvent_init_error dt validate_str_get
          validate_dict_get validate_optional_get)
  qed
qed

lemma MissionEvent_init_fields:
  assumes "MissionEvent_init L ts et de tn sp co la lo md = Inr event"
  shows "event = \<lparr>timestamp = Some (the (validate_datetime L ts)),
                event_type = the (validate_str L et),
                description = the (validate_str L de),
                tracking_number = the (validate_optional (validate_str L) tn),
                speed = the (validate_optional (validate_float L) sp),
                course = the (validate_optional (validate_float L) co),
                latitude = the (validate_optional (validate_float L) la),
                longitude = the (validate_optional (validate_float L) lo),
                metadata = the (validate_dict L md)\<rparr>"
  using assms unfolding MissionEvent_init_def by (simp split: if_splits)

lemma parse_event_Inr:
  assumes "parse_event L (PDict d) = Inr event"
  shows "\<exists>ts t. map_of d ''timestamp'' = Some ts \<and> parse_timestamp L ts = Inr t
           \<and> MissionEvent_init L (PDatetime t)
                (dict_get d ''event_type'' (PStr ''unknown''))
                (dict_get d ''description'' (PStr ''''))
                (dict_get d ''tracking_number'' PNone)
                (dict_get d ''speed'' PNone)
                (dict_get d ''course'' PNone)
                (dict_get d ''latitude'' PNone)
                (dict_get d ''longitude'' PNone)
                (dict_get d ''metadata'' (PDict [])) = Inr event"
proof (cases "map_of d ''timestamp''")
  case None
  with assms show ?thesis by (simp add: parse_event_def)
next
  case (Some ts)
  with assms show ?thesis
    by (cases "parse_timestamp L ts") (simp_all add: parse_event_def)
qed

lemma parse_event_defaults:
  assumes "parse_event L (PDict d) = Inr event"
  shows "(map_of d ''event_type'' = None \<longrightarrow> event_type event = ''unknown'')
       \<and> (map_of d ''description'' = None \<longrightarrow> description event = '''')
       \<and> (map_of d ''metadata'' = None \<longrightarrow> metadata event = [])"
proof -
  from parse_event_Inr [OF assms] obtain ts t where
    "MissionEvent_init L (PDatetime t)
                (dict_get d ''event_type'' (PStr ''unknown''))
                (dict_get d ''description'' (PStr ''''))
                (dict_get d ''tracking_number'' PNone)
                (dict_get d ''speed'' PNone)
                (dict_get d ''course'' PNone)
                (dict_get d ''latitude'' PNone)
                (dict_get d ''longitude'' PNone)
                (dict_get d ''metadata'' (PDict [])) = Inr event" by blast
  from MissionEvent_init_fields [OF this]
  have f: "event_type event = the (validate_str L (dict_get d ''event_type'' (PStr ''unknown'')))"
    "description event = the (validate_str L (dict_get d ''description'' (PStr '''')))"
    "metadata event = the (validate_dict L (dict_get d ''metadata'' (PDict [])))"
    by simp_all
  show ?thesis
    by (simp add: f dict_get_def validate_str_def validate_dict_def)
qed

text \<open>
  C10 (amended). Parsing an event dictionary raises exactly when the \<^verbatim>\<open>timestamp\<close> key is
  missing, or its value does not parse, or a key that is present holds a value that the
  validation of its declared type rejects. A missing \<^verbatim>\<open>event_type\<close> becomes
  \<^verbatim>\<open>"unknown"\<close>, a missing \<^verbatim>\<open>description\<close> the empty string and missing \<^verbatim>\<open>metadata\<close> the
  empty dictionary, so of the absent keys only \<^verbatim>\<open>timestamp\<close> makes an event fail.
\<close>

theorem parse_event_error_iff:
  "((\<exists>err. parse_event L (PDict d) = Inl err) \<longleftrightarrow>
     (case map_of d ''timestamp'' of
        None \<Rightarrow> True
      | Some ts \<Rightarrow>
          (\<exists>err. parse_timestamp L ts = Inl err)
          \<or> (\<exists>v. map_of d ''event_type'' = Some v \<and> validate_str L v = None)
          \<or> (\<exists>v. map_of d ''description'' = Some v \<and> validate_str L v = None)
          \<or> (\<exists>v. map_of d ''tracking_number'' = Some v
                 \<and> validate_optional (validate_str L) v = None)
          \<or> (\<exists>v. map_of d ''speed'' = Some v \<and> validate_optional (validate_float L) v = None)
          \<or> (\<exists>v. map_of d ''course'' = Some v \<and> validate_optional (validate_float L) v = None)
          \<or> (\<exists>v. map_of d ''latitude'' = Some v
                 \<and> validate_optional (validate_float L) v = None)
          \<or> (\<exists>v. map_of d ''longitude'' = Some v
                 \<and> validate_optional (validate_float L) v = None)
          \<or> (\<exists>v. map_of d ''metadata'' = Some v \<and> validate_dict L v = None)))
   \<and> (\<forall>event. parse_event L (PDict d) = Inr event \<longrightarrow>
         (map_of d ''event_type'' = None \<longrightarrow> event_type event = ''unknown'')
         \<and> (map_of d ''description'' = None \<longrightarrow> description event = '''')
         \<and> (map_of d ''metadata'' = None \<longrightarrow> metadata event = []))"
proof (rule conjI)
  show "(\<exists>err. parse_event L (PDict d) = Inl err) \<longleftrightarrow>
     (case map_of d ''timestamp'' of
        None \<Rightarrow> True
      | Some ts \<Rightarrow>
          (\<exists>err. parse_timestamp L ts = Inl err)
          \<or> (\<exists>v. map_of d ''event_type'' = Some v \<and> validate_str L v = None)
          \<or> (\<exists>v. map_of d ''description'' = Some v \<and> validate_str L v = None)
          \<or> (\<exists>v. map_of d ''tracking_number'' = Some v
                 \<and> validate_optional (validate_str L) v = None)
          \<or> (\<exists>v. map_of d ''speed'' = Some v \<and> validate_optional (validate_float L) v = None)
          \<or> (\<exists>v. map_of d ''course'' = Some v \<and> validate_optional (validate_float L) v = None)
          \<or> (\<exists>v. map_of d ''latitude'' = Some v
                 \<and> validate_optional (validate_float L) v = None)
          \<or> (\<exists>v. map_of d ''longitude'' = Some v
                 \<and> validate_optional (validate_float L) v = None)
          \<or> (\<exists>v. map_of d ''metadata'' = Some v \<and> validate_dict L v = None))"
    by (rule parse_event_error_cases)
next
  show "\<forall>event. parse_event L (PDict d) = Inr event \<longrightarrow>
         (map_of d ''event_type'' = None \<longrightarrow> event_type event = ''unknown'')
         \<and> (map_of d ''description'' = None \<longrightarrow> description event = '''')
         \<and> (map_of d ''metadata'' = None \<longrightarrow> metadata event = [])"
    using parse_event_defaults by (intro allI impI)
qed

text \<open>An instance: an event with a timestamp and nothing else parses, with the defaults.\<close>

theorem parse_event_error_iff_witness:
  "parse_event sample_library (PDict [(''timestamp'', PStr ''2024-11-14T08:00:00Z'')])
     = Inr \<lparr>timestamp = Some (Datetime 2024 11 14 8 0 0 0), event_type = ''unknown'',
            description = '''', tracking_number = None, speed = None, course = None,
            latitude = None, longitude = None, metadata = []\<rparr>
   \<and> map_of [(''timestamp'', PStr ''2024-11-14T08:00:00Z'')] ''event_type'' = None
   \<and> map_of [(''timestamp'', PStr ''2024-11-14T08:00:00Z'')] ''description'' = None
   \<and> map_of [(''timestamp'', PStr ''2024-11-14T08:00:00Z'')] ''metadata'' = None"
proof -
  have good: "parse_timestamp sample_library (PStr ''2024-11-14T08:00:00Z'')
      = Inr (Datetime 2024 11 14 8 0 0 0)"
    by (simp add: parse_timestamp_def sample_strptime_good)
  have "\<not> (\<exists>err. parse_event sample_library
      (PDict [(''timestamp'', PStr ''2024-11-14T08:00:00Z'')]) = Inl err)"
    using parse_event_error_iff [of sample_library "[(''timestamp'', PStr ''2024-11-14T08:00:00Z'')]"]
    by (simp add: good)
  then show ?thesis
    by (simp add: parse_event_def good MissionEvent_init_def dict_get_def validate_datetime_def
        validate_str_def validate_dict_def validate_optional_def)
qed

text \<open>
  C10 (as stated, refuted). The timestamp is present and parses, and the event still fails:
  \<^verbatim>\<open>event_type\<close> is present with the JSON value \<^verbatim>\<open>null\<close>, so \<^verbatim>\<open>get\<close> returns \<^verbatim>\<open>None\<close>
  and not the default, and the field is declared \<^verbatim>\<open>str\<close>.
\<close>

theorem parse_event_null_event_type_fails:
  "parse_timestamp sample_library (PStr ''2024-11-14T08:00:00Z'')
     = Inr (Datetime 2024 11 14 8 0 0 0)
   \<and> parse_event sample_library
        (PDict [(''timestamp'', PStr ''2024-11-14T08:00:00Z''), (''event_type'', PNone)])
       = Inl ValidationError"
proof -
  have good: "parse_timestamp sample_library (PStr ''2024-11-14T08:00:00Z'')
      = Inr (Datetime 2024 11 14 8 0 0 0)"
    by (simp add: parse_timestamp_def sample_strptime_good)
  then show ?thesis
    by (simp add: parse_event_def MissionEvent_init_def dict_get_def validate_str_def)
qed


section \<open>Doctrine retrieval\<close>

lemma unique_docs_first_occurrences:
  "unique_docs xs unique seen
     = unique @ first_occurrences (filter (\<lambda>d. page_content d \<notin> seen) xs)"
proof (induction xs arbitrary: unique seen)
  case Nil
  then show ?case by simp
next
  case (Cons d rest)
  have "filter (\<lambda>x. page_content x \<notin> insert (page_content d) seen) rest
      = filter (\<lambda>x. page_content x \<noteq> page_content d) (filter (\<lambda>x. page_content x \<notin> seen) rest)"
    by (induction rest) auto
  with Cons show ?case by simp
qed

lemma set_first_occurrences:
  "page_content ` set (first_occurrences xs) = page_content ` set xs"
  by (induction xs rule: first_occurrences.induct) auto

lemma first_occurrences_subset: "set (first_occurrences xs) \<subseteq> set xs"
  by (induction xs rule: first_occurrences.induct) auto

lemma distinct_first_occurrences:
  "distinct (map page_content (first_occurrences xs))"
proof (induction xs rule: first_occurrences.induct)
  case 1
  then show ?case by simp
next
  case (2 d ds)
  have "page_content d \<notin> page_content ` set (first_occurrences (filter (\<lambda>d'. page_content d' \<noteq> page_content d) ds))"
    unfolding set_first_occurrences by auto
  with 2 show ?case by simp
qed

lemma subseq_first_occurrences: "subseq (first_occurrences xs) xs"
proof (induction xs rule: first_occurrences.induct)
  case 1
  then show ?case by simp
next
  case (2 d ds)
  have "subseq (filter (\<lambda>d'. page_content d' \<noteq> page_content d) ds) ds"
    by simp
  with 2 have "subseq (first_occurrences (filter (\<lambda>d'. page_content d' \<noteq> page_content d) ds)) ds"
    using subseq_order.trans by blast
  then show ?case by simp
qed

lemma find_filter_weaker:
  "(\<And>x. P x \<Longrightarrow> Q x) \<Longrightarrow> find P (filter Q xs) = find P xs"
  by (induction xs) auto

lemma find_first_occurrences:
  "doc \<in> set (first_occurrences xs)
     \<Longrightarrow> find (\<lambda>d. page_content d = page_content doc) xs = Some doc"
proof (induction xs rule: first_occurrences.induct)
  case 1
  then show ?case by simp
next
  case (2 d ds)
  show ?case
  proof (cases "doc = d")
    case True
    then show ?thesis by simp
  next
    case False
    with 2(2) have mem: "doc \<in> set (first_occurrences (filter (\<lambda>d'. page_content d' \<noteq> page_content d) ds))"
      by simp
    then have "doc \<in> set (filter (\<lambda>d'. page_content d' \<noteq> page_content d) ds)"
      using first_occurrences_subset by blast
    then have ne: "page_content doc \<noteq> page_content d" by simp
    from 2(1) [OF mem]
    have "find (\<lambda>x. page_content x = page_content doc)
            (filter (\<lambda>d'. page_content d' \<noteq> page_content d) ds) = Some doc" .
    moreover have "find (\<lambda>x. page_content x = page_content doc)
            (filter (\<lambda>d'. page_content d' \<noteq> page_content d) ds)
          = find (\<lambda>x. page_content x = page_content doc) ds"
      using ne by (intro find_filter_weaker) auto
    ultimately show ?thesis using ne by auto
  qed
qed

lemma upt_0_Suc: "[0..<Suc n] = 0 # map Suc [0..<n]"
  by (simp add: upt_conv_Cons map_Suc_upt del: upt_Suc)

lemma unique_docs_positions:
  "unique_docs xs unique seen
     = unique @ map (\<lambda>i. xs ! i)
         (filter (\<lambda>i. page_content (xs ! i) \<notin> seen \<union> page_content ` set (take i xs))
            [0..<length xs])"
proof (induction xs arbitrary: unique seen)
  case Nil
  then show ?case by simp
next
  case (Cons d rest)
  have shift: "\<And>S. map (\<lambda>i. (d # rest) ! i)
         (filter (\<lambda>i. page_content ((d # rest) ! i) \<notin> S \<union> page_content ` set (take i (d # rest)))
            (map Suc [0..<length rest]))
       = map (\<lambda>i. rest ! i)
         (filter (\<lambda>i. page_content (rest ! i) \<notin> insert (page_content d) S \<union> page_content ` set (take i rest))
            [0..<length rest])"
    by (simp add: filter_map comp_def conj_commute conj_left_commute)
  show ?case
  proof (cases "page_content d \<in> seen")
    case True
    then have "insert (page_content d) seen = seen" by auto
    with True Cons [of unique seen] shift [of seen] show ?thesis
      by (simp add: upt_0_Suc del: upt_Suc)
  next
    case False
    with Cons [of "unique @ [d]" "insert (page_content d) seen"] shift [of seen] show ?thesis
      by (simp add: upt_0_Suc del: upt_Suc)
  qed
qed

lemma search_all_succeeds:
  "(\<forall>q \<in> set qs. \<exists>docs. search ix q 3 = Inr docs)
     \<Longrightarrow> search_all ix qs acc = Inr (acc @ concat (map (\<lambda>q. projr (search ix q 3)) qs))"
proof (induction qs arbitrary: acc)
  case Nil
  then show ?case by simp
next
  case (Cons q qs)
  from Cons.prems obtain docs where d: "search ix q 3 = Inr docs" by auto
  from Cons.prems have "\<forall>q \<in> set qs. \<exists>docs. search ix q 3 = Inr docs" by simp
  from Cons.IH [OF this, of "acc @ docs"] d show ?case by simp
qed

text \<open>
  C4. When the searches succeed, the DoctrineRetrieval stage returns, and there is one
  result list per event among the first five, in log order, each the answer of
  \<^verbatim>\<open>search\<close> to the query \<^verbatim>\<open><event_type>: <description>\<close> with \<open>k = 3\<close>. The
  doctrine context is read off their concatenation: it holds, in the order of their
  positions, exactly the documents at the positions where a text occurs for the first
  time. So its texts are distinct, they are the texts that were found, the context is a
  subsequence of the concatenation, and each document kept is the first one found with
  its text.
\<close>

theorem retrieve_doctrine_context:
  assumes "\<forall>event \<in> set (take 5 (events (mission_log state))).
             \<exists>docs. search ix (event_type event @ '': '' @ description event) 3 = Inr docs"
  shows "\<exists>state' results.
           retrieve_doctrine_node ix state = Inr state'
         \<and> state' = state\<lparr>doctrine_context := doctrine_context state'\<rparr>
         \<and> length results = length (take 5 (events (mission_log state)))
         \<and> (\<forall>i < length results.
               search ix (event_type (events (mission_log state) ! i) @ '': ''
                          @ description (events (mission_log state) ! i)) 3
                 = Inr (results ! i))
         \<and> doctrine_context state'
             = map (\<lambda>i. concat results ! i)
                 (filter (\<lambda>i. page_content (concat results ! i)
                              \<notin> page_content ` set (take i (concat results)))
                    [0..<length (concat results)])
         \<and> distinct (map page_content (doctrine_context state'))
         \<and> set (map page_content (doctrine_context state'))
             = set (map page_content (concat results))
         \<and> subseq (doctrine_context state') (concat results)
         \<and> (\<forall>doc \<in> set (doctrine_context state').
               find (\<lambda>d. page_content d = page_content doc) (concat results) = Some doc)"
proof -
  let ?evs = "take 5 (events (mission_log state))"
  let ?q = "\<lambda>event. event_type event @ '': '' @ description event"
  let ?qs = "take 5 (event_descriptions (mission_log state))"
  let ?results = "map (\<lambda>q. projr (search ix q 3)) ?qs"
  let ?ctx = "first_occurrences (concat ?results)"
  have qs: "?qs = map ?q ?evs"
    by (simp add: event_descriptions_def take_map)
  with assms have ok: "\<forall>q \<in> set ?qs. \<exists>docs. search ix q 3 = Inr docs" by auto
  from search_all_succeeds [OF ok, of "[]"]
  have node: "retrieve_doctrine_node ix state = Inr (state\<lparr>doctrine_context := ?ctx\<rparr>)"
    by (simp add: retrieve_doctrine_node_def unique_docs_first_occurrences)
  have len: "length ?results = length ?evs" by (simp add: qs)
  have each: "\<forall>i < length ?results.
      search ix (?q (events (mission_log state) ! i)) 3 = Inr (?results ! i)"
  proof (intro allI impI)
    fix i assume i: "i < length ?results"
    then have i': "i < length ?evs" by (simp add: qs)
    then have "?qs ! i = ?q (events (mission_log state) ! i)"
      by (simp add: qs)
    moreover from i' have "i < length ?qs" by (simp add: qs)
    then have "?qs ! i \<in> set ?qs" by (rule nth_mem)
    with ok obtain docs where "search ix (?qs ! i) 3 = Inr docs" by blast
    moreover from i have "?results ! i = projr (search ix (?qs ! i) 3)"
      by simp
    ultimately show "search ix (?q (events (mission_log state) ! i)) 3 = Inr (?results ! i)"
      by simp
  qed
  have pos: "?ctx = map (\<lambda>i. concat ?results ! i)
                 (filter (\<lambda>i. page_content (concat ?results ! i)
                              \<notin> page_content ` set (take i (concat ?results)))
                    [0..<length (concat ?results)])"
    using unique_docs_first_occurrences [of "concat ?results" "[]" "{}"]
      unique_docs_positions [of "concat ?results" "[]" "{}"] by simp
  have d: "distinct (map page_content ?ctx)" by (rule distinct_first_occurrences)
  have s: "set (map page_content ?ctx) = set (map page_content (concat ?results))"
    using set_first_occurrences [of "concat ?results"] by simp
  have sub: "subseq ?ctx (concat ?results)" by (rule subseq_first_occurrences)
  have f: "\<forall>doc \<in> set ?ctx. find (\<lambda>d. page_content d = page_content doc) (concat ?results) = Some doc"
    using find_first_occurrences by blast
  show ?thesis
    apply (rule exI [of _ "state\<lparr>doctrine_context := ?ctx\<rparr>"])
    apply (rule exI [of _ ?results])
    using node len each pos d s sub f by simp
qed


lemma sample_search_speed:
  "search sample_indexer ''speed_change: Increased speed to 15 knots'' 3
     = Inr [doc_speed, doc_contact, doc_debrief]"
  by (simp add: search_def sample_indexer_def sample_store_def)

lemma sample_search_contact:
  "search sample_indexer ''contact_detection: Surface contact detected bearing 045'' 3
     = Inr [doc_contact, doc_speed, doc_debrief]"
  by (simp add: search_def sample_indexer_def sample_store_def)

lemma sample_docs_differ:
  "page_content doc_speed \<noteq> page_content doc_contact"
  "page_content doc_speed \<noteq> page_content doc_debrief"
  "page_content doc_contact \<noteq> page_content doc_debrief"
  by (simp_all add: doc_speed_def doc_contact_def doc_debrief_def)

lemma sample_retrieve:
  "retrieve_doctrine_node sample_indexer (initial_state sample_log)
     = Inr ((initial_state sample_log)\<lparr>doctrine_context := [doc_speed, doc_contact, doc_debrief]\<rparr>)"
  using sample_docs_differ
  by (simp add: retrieve_doctrine_node_def initial_state_def sample_log_def
      event_descriptions_def speed_event_def contact_event_def sample_search_speed
      sample_search_contact)

text \<open>
  An instance: two events whose results share their documents; each text is kept once,
  in the order first seen.
\<close>

theorem retrieve_doctrine_context_witness:
  "search sample_indexer ''speed_change: Increased speed to 15 knots'' 3
     = Inr [doc_speed, doc_contact, doc_debrief]
   \<and> search sample_indexer ''contact_detection: Surface contact detected bearing 045'' 3
     = Inr [doc_contact, doc_speed, doc_debrief]
   \<and> retrieve_doctrine_node sample_indexer (initial_state sample_log)
     = Inr ((initial_state sample_log)\<lparr>doctrine_context := [doc_speed, doc_contact, doc_debrief]\<rparr>)"
proof -
  have h: "\<forall>event \<in> set (take 5 (events (mission_log (initial_state sample_log)))).
             \<exists>docs. search sample_indexer (event_type event @ '': '' @ description event) 3
                      = Inr docs"
    using sample_search_speed sample_search_contact
    by (simp add: initial_state_def sample_log_def speed_event_def contact_event_def)
  from retrieve_doctrine_context [OF h]
  have "\<exists>state'. retrieve_doctrine_node sample_indexer (initial_state sample_log) = Inr state'"
    by blast
  then show ?thesis
    using sample_search_speed sample_search_contact sample_retrieve by simp
qed

section \<open>Compliance evaluation\<close>

lemma doctrine_refs_succeeds:
  "(\<forall>doc \<in> set docs.
      validate_str L (dict_get (doc_metadata doc) ''source_file'' (PStr ''unknown'')) \<noteq> None)
   \<Longrightarrow> \<exists>refs. doctrine_refs L docs = Inr refs
          \<and> map ref_context refs = map page_content docs
          \<and> map requirement refs = map (\<lambda>doc. take 200 (page_content doc)) docs"
proof (induction docs)
  case Nil
  then show ?case by simp
next
  case (Cons doc docs)
  from Cons.prems
  have v: "validate_str L (dict_get (doc_metadata doc) ''source_file'' (PStr ''unknown'')) \<noteq> None"
    by simp
  then have v': "validate_str L (dict_get (doc_metadata doc) ''source_file'' (PStr ''Naval Doctrine'')) \<noteq> None"
    by (simp add: validate_str_get)
  from Cons obtain refs where r: "doctrine_refs L docs = Inr refs"
    "map ref_context refs = map page_content docs"
    "map requirement refs = map (\<lambda>doc. take 200 (page_content doc)) docs"
    by auto
  from v v' r show ?case
    by (simp add: DoctrineReference_init_def)
qed

lemma compare_events_succeeds:
  assumes "\<forall>event \<in> set evs. timestamp event \<noteq> None"
    and "doctrine_refs L (take 2 docs) = Inr refs"
  shows "compare_events L evs dt docs acc
     = Inr (acc @ map (\<lambda>event.
         \<lparr>result_timestamp = the (timestamp event),
          event_description = description event,
          actual_action = description event,
          expected_action = get_expected_action_for_event event dt,
          compliance_status =
            determine_compliance event (get_expected_action_for_event event dt),
          doctrine_references = refs,
          analysis = generate_event_analysis event (get_expected_action_for_event event dt)
            (description event)
            (determine_compliance event (get_expected_action_for_event event dt)),
          severity = Some (determine_severity
            (determine_compliance event (get_expected_action_for_event event dt)))\<rparr>) evs)"
  using assms(1)
proof (induction evs arbitrary: acc)
  case Nil
  then show ?case by simp
next
  case (Cons event evs)
  from Cons.prems obtain t where t: "timestamp event = Some t" by auto
  from Cons.prems have "\<forall>event \<in> set evs. timestamp event \<noteq> None" by simp
  note ih = Cons.IH [OF this]
  show ?case
    by (simp add: analyze_event_against_doctrine_def assms(2) ComparisonResult_init_def t ih
        Let_def)
qed

text \<open>
  C5. For a mission log whose events have their timestamps (every event the constructor
  built has one) and a context whose first two documents carry a source file name that
  validates as a string, or none, the ComplianceEvaluation stage returns with one
  comparison per event of the log, all of them and in log order: comparison \<open>i\<close> has the
  timestamp and description of event \<open>i\<close> and the status the rule engine gives it. Each
  comparison carries at most two doctrine references, whose contexts are the texts of
  the first two documents of the retrieved context, in that order.
\<close>

theorem compare_actions_one_result_per_event:
  assumes "\<forall>event \<in> set (events (mission_log state)). timestamp event \<noteq> None"
    and "\<forall>doc \<in> set (take 2 (doctrine_context state)).
           validate_str L (dict_get (doc_metadata doc) ''source_file'' (PStr ''unknown''))
             \<noteq> None"
  shows "\<exists>state'.
           compare_actions_node L state = Inr state'
         \<and> state' = state\<lparr>comparison_results := comparison_results state'\<rparr>
         \<and> length (comparison_results state') = length (events (mission_log state))
         \<and> (\<forall>i < length (events (mission_log state)).
               Some (result_timestamp (comparison_results state' ! i))
                 = timestamp (events (mission_log state) ! i)
             \<and> event_description (comparison_results state' ! i)
                 = description (events (mission_log state) ! i)
             \<and> compliance_status (comparison_results state' ! i)
                 = determine_compliance (events (mission_log state) ! i)
                     (expected_action (comparison_results state' ! i))
             \<and> length (doctrine_references (comparison_results state' ! i)) \<le> 2
             \<and> map ref_context (doctrine_references (comparison_results state' ! i))
                 = map page_content (take 2 (doctrine_context state)))"
proof -
  let ?evs = "events (mission_log state)"
  let ?dt = "doctrine_text_of (doctrine_context state)"
  from doctrine_refs_succeeds [OF assms(2)] obtain refs where
    r: "doctrine_refs L (take 2 (doctrine_context state)) = Inr refs"
    "map ref_context refs = map page_content (take 2 (doctrine_context state))"
    by blast
  from r(2) have "length refs = length (take 2 (doctrine_context state))"
    using map_eq_imp_length_eq by blast
  then have l2: "length refs \<le> 2" by simp
  note ce = compare_events_succeeds [OF assms(1) r(1), of ?dt "[]"]
  have ts: "\<forall>i < length ?evs. Some (the (timestamp (?evs ! i))) = timestamp (?evs ! i)"
    using assms(1) by auto
  show ?thesis
    using ce r(2) l2 ts
    by (simp add: compare_actions_node_def)
qed


text \<open>An instance: two events against a context of three documents.\<close>

theorem compare_actions_witness:
  "timestamp speed_event \<noteq> None \<and> timestamp contact_event \<noteq> None
   \<and> (\<exists>state'.
         compare_actions_node sample_library retrieved_state = Inr state'
       \<and> map compliance_status (comparison_results state') = [''compliant'', ''non-compliant'']
       \<and> map (\<lambda>c. map ref_context (doctrine_references c)) (comparison_results state')
           = [[page_content doc_speed, page_content doc_contact],
              [page_content doc_speed, page_content doc_contact]])"
proof -
  have evs: "events (mission_log retrieved_state) = [speed_event, contact_event]"
    by (simp add: retrieved_state_def sample_log_def)
  have ctx: "take 2 (doctrine_context retrieved_state) = [doc_speed, doc_contact]"
    by (simp add: retrieved_state_def)
  have ts: "timestamp speed_event \<noteq> None" "timestamp contact_event \<noteq> None"
    by (simp_all add: speed_event_def contact_event_def)
  have h1: "\<forall>event \<in> set (events (mission_log retrieved_state)). timestamp event \<noteq> None"
    using ts by (simp add: evs)
  have h2: "\<forall>doc \<in> set (take 2 (doctrine_context retrieved_state)).
           validate_str sample_library
             (dict_get (doc_metadata doc) ''source_file'' (PStr ''unknown'')) \<noteq> None"
    by (simp add: ctx doc_speed_def doc_contact_def dict_get_def validate_str_def)
  from compare_actions_one_result_per_event [OF h1 h2] obtain state' where
    s: "compare_actions_node sample_library retrieved_state = Inr state'"
    and len: "length (comparison_results state') = length (events (mission_log retrieved_state))"
    and each: "\<forall>i < length (events (mission_log retrieved_state)).
               Some (result_timestamp (comparison_results state' ! i))
                 = timestamp (events (mission_log retrieved_state) ! i)
             \<and> event_description (comparison_results state' ! i)
                 = description (events (mission_log retrieved_state) ! i)
             \<and> compliance_status (comparison_results state' ! i)
                 = determine_compliance (events (mission_log retrieved_state) ! i)
                     (expected_action (comparison_results state' ! i))
             \<and> length (doctrine_references (comparison_results state' ! i)) \<le> 2
             \<and> map ref_context (doctrine_references (comparison_results state' ! i))
                 = map page_content (take 2 (doctrine_context retrieved_state))"
    by blast
  from len obtain c0 c1 where cs: "comparison_results state' = [c0, c1]"
    by (auto simp: evs length_Suc_conv)
  have "0 < length (events (mission_log retrieved_state))" by (simp add: evs)
  with each have "compliance_status (comparison_results state' ! 0)
                 = determine_compliance (events (mission_log retrieved_state) ! 0)
                     (expected_action (comparison_results state' ! 0))
             \<and> map ref_context (doctrine_references (comparison_results state' ! 0))
                 = map page_content (take 2 (doctrine_context retrieved_state))"
    by blast
  then have e0: "compliance_status c0 = determine_compliance speed_event (expected_action c0)"
      "map ref_context (doctrine_references c0) = [page_content doc_speed, page_content doc_contact]"
    by (simp_all add: evs cs ctx)
  have "1 < length (events (mission_log retrieved_state))" by (simp add: evs)
  with each have "compliance_status (comparison_results state' ! 1)
                 = determine_compliance (events (mission_log retrieved_state) ! 1)
                     (expected_action (comparison_results state' ! 1))
             \<and> map ref_context (doctrine_references (comparison_results state' ! 1))
                 = map page_content (take 2 (doctrine_context retrieved_state))"
    by blast
  then have e1: "compliance_status c1 = determine_compliance contact_event (expected_action c1)"
      "map ref_context (doctrine_references c1) = [page_content doc_speed, page_content doc_contact]"
    by (simp_all add: evs cs ctx)
  have "determine_compliance speed_event (expected_action c0) = ''compliant''"
    "determine_compliance contact_event (expected_action c1) = ''non-compliant''"
    by (simp_all add: determine_compliance_def speed_event_def contact_event_def)
  with e0 e1 cs s ts show ?thesis by simp
qed

section \<open>Summary synthesis and the score\<close>

text \<open>
  For a list with at least one comparison the summary stage returns, with the lessons
  and recommendations of lines 307-328.
\<close>

lemma summary_nonempty:
  assumes "comparison_results state \<noteq> []"
  shows "\<exists>state'.
      generate_summary_node L state = Inr state'
    \<and> comparison_results state' = comparison_results state
    \<and> lessons_learned state' =
        (if count_status ''non-compliant'' (comparison_results state) > 0
         then [str_nat (count_status ''non-compliant'' (comparison_results state)) @ '' events did not meet doctrine requirements - ensure proper documentation procedures are followed'']
         else [])
        @ (if count_status ''partial'' (comparison_results state) > 0
           then [str_nat (count_status ''partial'' (comparison_results state)) @ '' events had partial compliance - review checklist for complete event logging'']
           else [])
        @ (if count_status ''compliant'' (comparison_results state) = length (comparison_results state)
           then [''All events properly documented according to doctrine - excellent adherence to procedures'']
           else [])
    \<and> recommendations state' =
        (if count_status ''non-compliant'' (comparison_results state) > 0
            \<or> count_status ''partial'' (comparison_results state) > 0
         then [''Conduct refresher training on event documentation requirements'',
               ''Implement pre-mission checklist review of documentation procedures'']
         else [])
        @ [''Continue post-mission debriefs to reinforce lessons learned'']"
  using assms by (simp add: generate_summary_node_def Let_def)

lemma count_status_all:
  "(count_status s results = length results) = (\<forall>c \<in> set results. compliance_status c = s)"
  unfolding count_status_def
proof (induction results)
  case Nil
  then show ?case by simp
next
  case (Cons c results)
  have "length (filter (\<lambda>c. compliance_status c = s) results) \<noteq> Suc (length results)"
    using length_filter_le [of "\<lambda>c. compliance_status c = s" results] by linarith
  with Cons show ?case by auto
qed

lemma count_status_pos:
  "(count_status s results > 0) = (\<exists>c \<in> set results. compliance_status c = s)"
  unfolding count_status_def
  by (simp add: filter_empty_conv)

lemma summary_all_compliant:
  assumes "comparison_results state \<noteq> []"
    and "\<forall>c \<in> set (comparison_results state). compliance_status c = ''compliant''"
  shows "\<exists>state'. generate_summary_node L state = Inr state'
    \<and> lessons_learned state' = [''All events properly documented according to doctrine - excellent adherence to procedures'']
    \<and> recommendations state' = [''Continue post-mission debriefs to reinforce lessons learned'']"
proof -
  have "count_status ''compliant'' (comparison_results state) = length (comparison_results state)"
    using assms(2) by (simp add: count_status_all)
  moreover have "\<not> count_status ''non-compliant'' (comparison_results state) > 0"
    using assms(2) by (simp add: count_status_pos)
  moreover have "\<not> count_status ''partial'' (comparison_results state) > 0"
    using assms(2) by (simp add: count_status_pos)
  ultimately show ?thesis
    using summary_nonempty [OF assms(1), of L] by auto
qed

text \<open>
  C6 (the code at the input where it departs from the claim). For the empty comparison
  list, where every event is compliant, the claim expects the single entry on excellent
  adherence and the constant recommendation. The stage raises \<^verbatim>\<open>ZeroDivisionError\<close>
  while it formats the summary text and returns nothing.
\<close>

theorem summary_of_no_comparisons_raises:
  "generate_summary_node L (state\<lparr>comparison_results := []\<rparr>) = Inl ZeroDivisionError"
  by (simp add: generate_summary_node_def Let_def)

text \<open>
  A mission log without events: no search is made and no comparison is built, so the
  summary stage receives the empty list.
\<close>

lemma empty_log_reaches_summary:
  "graph_invoke L ix (initial_state (mlog\<lparr>events := []\<rparr>))
     = generate_summary_node L (initial_state (mlog\<lparr>events := []\<rparr>))"
  by (simp add: graph_invoke_def analyze_events_node_def retrieve_doctrine_node_def
      compare_actions_node_def initial_state_def event_descriptions_def)

text \<open>
  C2 (the code at the input where it departs from the claim). For a mission log without
  events the comparison list is empty and the claim expects an analysis whose score is 0;
  \<^verbatim>\<open>analyze_mission\<close> raises \<^verbatim>\<open>ZeroDivisionError\<close>, from the summary stage, before the
  score is computed.
\<close>

theorem analyze_mission_without_events_raises:
  "analyze_mission L ix (mlog\<lparr>events := []\<rparr>) = Inl ZeroDivisionError"
  unfolding analyze_mission_def empty_log_reaches_summary
  by (simp add: generate_summary_node_def initial_state_def Let_def)

text \<open>
  Where \<^verbatim>\<open>analyze_mission\<close> returns, the comparison list is not empty and the score is
  the share of compliant comparisons times 100, the value the summary stage computes.
\<close>

lemma graph_invoke_results:
  assumes "graph_invoke L ix s0 = Inr result"
  shows "comparison_results result \<noteq> []"
proof -
  from assms obtain s3 where "generate_summary_node L s3 = Inr result"
    by (auto simp: graph_invoke_def split: sum.splits)
  then show ?thesis
    by (auto simp: generate_summary_node_def Let_def split: if_splits)
qed

lemma analyze_mission_score:
  assumes "analyze_mission L ix mlog = Inr a"
  shows "comparisons a \<noteq> []
       \<and> overall_compliance_score a
           = Some (real (count_status ''compliant'' (comparisons a))
                     / real (length (comparisons a)) * 100)"
proof -
  from assms obtain result where r: "graph_invoke L ix (initial_state mlog) = Inr result"
    and a: "comparisons a = comparison_results result"
      "overall_compliance_score a = Some (overall_score (comparison_results result))"
    by (auto simp: analyze_mission_def split: sum.splits)
  from graph_invoke_results [OF r] a show ?thesis
    by (simp add: overall_score_def)
qed

lemma summary_score_is_overall_score:
  "(if length results > 0
    then real (count_status ''compliant'' results) / real (length results) * 100 else 0)
     = overall_score results"
  by (simp add: overall_score_def)

section \<open>Event extraction\<close>

text \<open>
  C3 (amended). The EventExtraction stage does not validate the mission log: for every
  state, also one whose mission log has no events, it returns, with the comparison list
  empty, the first event of the log (none if there is no event) as the current event,
  and the mission log and the doctrine context unchanged.
\<close>

theorem event_extraction_never_fails:
  "\<exists>state'.
      analyze_events_node state = Inr state'
    \<and> comparison_results state' = []
    \<and> current_event state' =
        (case events (mission_log state) of [] \<Rightarrow> None | e # es \<Rightarrow> Some e)
    \<and> mission_log state' = mission_log state
    \<and> doctrine_context state' = doctrine_context state"
  by (simp add: analyze_events_node_def)

text \<open>
  C3 (as stated, refuted). A mission log without events is not rejected by the
  EventExtraction stage, nor by the two stages after it, even when no index exists: no
  stage checks that the log has events.
\<close>

theorem empty_log_passes_three_stages:
  "analyze_events_node (initial_state empty_log) = Inr (initial_state empty_log)
   \<and> retrieve_doctrine_node DoctrineIndexer_init (initial_state empty_log)
       = Inr (initial_state empty_log)
   \<and> compare_actions_node sample_library (initial_state empty_log)
       = Inr (initial_state empty_log)"
  by (simp add: analyze_events_node_def retrieve_doctrine_node_def compare_actions_node_def
      initial_state_def empty_log_def event_descriptions_def)

section \<open>Searching the doctrine store\<close>










end
